theory Spec2Isabelle
  imports Main "HOL-Library.Sublist" "HOL-Library.AList" "HOL-Library.List_Lexorder"
    "HOL-Library.Char_ord"
begin

section \<open>Errors\<close>

text \<open>
  The Go code reports failures as \<^verbatim>\<open>error\<close> values built with \<^verbatim>\<open>fmt.Errorf\<close>.
  Each constructor stands for one message of the source and carries the text that the
  message interpolates. A nil pointer dereference is a run-time panic; it is kept as a
  value of its own.
\<close>

datatype error =
    DocumentLoadError string
  | InvalidServerURL string
  | UnsupportedBodyMIME string
  | ValidatorError string
  | ValidationError string "string list"
  | JoinPathError string
  | ParseURLError string
  | NewRequestError string
  | InvalidBodyShape
  | UnsupportedMIME string
  | TransportError string
  | ReadResponseError string
  | NilPointerPanic

section \<open>Strings (package \<^verbatim>\<open>strings\<close>)\<close>

text \<open>\<^verbatim>\<open>strings.HasPrefix(s, prefix)\<close>.\<close>

definition strings_HasPrefix :: "string \<Rightarrow> string \<Rightarrow> bool" where
  "strings_HasPrefix s p = (take (length p) s = p)"

text \<open>
  \<^verbatim>\<open>strings.Replace(s, old, new, 1)\<close>: the leftmost occurrence of \<open>old\<close> is replaced,
  anything after it is copied. The source calls \<^verbatim>\<open>strings.Replace\<close> with the count 1 only.
  An empty \<open>old\<close> matches at the beginning of the string.
\<close>

fun strings_Replace1 :: "string \<Rightarrow> string \<Rightarrow> string \<Rightarrow> string" where
  "strings_Replace1 [] old new = (if old = [] then new else [])"
| "strings_Replace1 (c # cs) old new =
     (if strings_HasPrefix (c # cs) old then new @ drop (length old) (c # cs)
      else c # strings_Replace1 cs old new)"

text \<open>\<^verbatim>\<open>strings.Join(elems, sep)\<close>.\<close>

fun strings_Join :: "string list \<Rightarrow> string \<Rightarrow> string" where
  "strings_Join [] sep = []"
| "strings_Join [x] sep = x"
| "strings_Join (x # y # ys) sep = x @ sep @ strings_Join (y # ys) sep"

text \<open>The placeholder \<^verbatim>\<open>"{" + name + "}"\<close>.\<close>

definition placeholder :: "string \<Rightarrow> string" where
  "placeholder name = ''{'' @ name @ ''}''"

section \<open>Server resolution (\<^verbatim>\<open>parseServer\<close>)\<close>

text \<open>
  \<^verbatim>\<open>openapi3.ServerVariable\<close> and \<^verbatim>\<open>openapi3.Server\<close>. \<^verbatim>\<open>Variables\<close> is a Go map from
  names to pointers; the list gives its entries in the order in which the \<^verbatim>\<open>range\<close>
  loop visits them (the Go runtime picks that order), and \<open>None\<close> is a nil pointer.
\<close>

record ServerVariable =
  Enum :: "string list"
  Default :: string

record Server =
  URL :: string
  Variables :: "(string \<times> ServerVariable option) list"

text \<open>One pass of the loop body of \<^verbatim>\<open>parseServer\<close>.\<close>

fun substituteVariable :: "string \<Rightarrow> string \<times> ServerVariable option \<Rightarrow> string" where
  "substituteVariable s (name, None) = s"
| "substituteVariable s (name, Some variable) =
     (if Default variable \<noteq> [] then strings_Replace1 s (placeholder name) (Default variable)
      else (case Enum variable of
              e # _ \<Rightarrow> strings_Replace1 s (placeholder name) e
            | [] \<Rightarrow> s))"

definition substituteVariables :: "string \<Rightarrow> (string \<times> ServerVariable option) list \<Rightarrow> string" where
  "substituteVariables s vars = foldl substituteVariable s vars"

definition parseServer :: "Server \<Rightarrow> error + string" where
  "parseServer server =
     (let s = substituteVariables (URL server) (Variables server)
      in if \<not> strings_HasPrefix s ''http'' then Inl (InvalidServerURL s) else Inr s)"

section \<open>JSON values read from the argument payload (package \<^verbatim>\<open>gjson\<close>)\<close>

text \<open>
  A \<^verbatim>\<open>gjson.Result\<close>. Numbers carry the text that \<^verbatim>\<open>String()\<close> returns for them;
  arrays and objects carry their raw JSON text (the field \<^verbatim>\<open>Raw\<close>, which is what
  \<^verbatim>\<open>String()\<close> returns for them) beside their members.
\<close>

datatype Result =
    JNull
  | JFalse
  | JTrue
  | JNumber string
  | JString string
  | JArray string "Result list"
  | JObject string "(string \<times> Result) list"

fun Result_String :: "Result \<Rightarrow> string" where
  "Result_String JNull = []"
| "Result_String JFalse = ''false''"
| "Result_String JTrue = ''true''"
| "Result_String (JNumber s) = s"
| "Result_String (JString s) = s"
| "Result_String (JArray raw items) = raw"
| "Result_String (JObject raw members) = raw"

text \<open>
  \<^verbatim>\<open>Result.Map()\<close> builds a Go map by assigning the members in turn, so a repeated key
  keeps its last value. The \<^verbatim>\<open>range\<close> loops of the source visit that map in an order
  the Go runtime picks; the list returned here is the order of the visit (keys in the
  order of their first appearance).
\<close>

definition Result_Map :: "(string \<times> Result) list \<Rightarrow> (string \<times> Result) list" where
  "Result_Map members = foldl (\<lambda>m (k, v). AList.update k v m) [] members"

text \<open>
  The argument payload is a JSON object, given by its members. \<^verbatim>\<open>gjson.Get(input, name)\<close>
  is a lookup of the key \<open>name\<close> among them (the first member with that key); \<open>None\<close>
  is a result for which \<^verbatim>\<open>Exists()\<close> is false. The path syntax of gjson (dots,
  wildcards, modifiers inside \<open>name\<close>) is not part of the model.
\<close>

type_synonym payload = "(string \<times> Result) list"

definition gjson_Get :: "payload \<Rightarrow> string \<Rightarrow> Result option" where
  "gjson_Get input name = map_of input name"

section \<open>Operation descriptor\<close>

record Parameter =
  Name :: string
  Style :: string
  Explode :: "bool option"

record OperationInfo =
  Server :: string
  Path :: string
  Method :: string
  BodyContentMIME :: string
  QueryParams :: "Parameter list"
  PathParams :: "Parameter list"
  HeaderParams :: "Parameter list"
  CookieParams :: "Parameter list"

section \<open>Path parameters (\<^verbatim>\<open>handlePathParameters\<close>)\<close>

text \<open>\<^verbatim>\<open>strs = append(strs, k, v.String())\<close> over the members of an object.\<close>

definition flattenMembers :: "(string \<times> Result) list \<Rightarrow> string list" where
  "flattenMembers members = concat (map (\<lambda>(k, v). [k, Result_String v]) (Result_Map members))"

text \<open>\<^verbatim>\<open>strs = append(strs, k+"="+v.String())\<close> over the members of an object.\<close>

definition pairMembers :: "(string \<times> Result) list \<Rightarrow> string list" where
  "pairMembers members = map (\<lambda>(k, v). k @ ''='' @ Result_String v) (Result_Map members)"

text \<open>\<^verbatim>\<open>s += sep + k + "=" + v.String()\<close> over the members of an object.\<close>

definition prefixedMembers :: "string \<Rightarrow> (string \<times> Result) list \<Rightarrow> string" where
  "prefixedMembers sep members =
     concat (map (\<lambda>(k, v). sep @ k @ ''='' @ Result_String v) (Result_Map members))"

text \<open>The body of the loop of \<^verbatim>\<open>handlePathParameters\<close>, for one parameter.\<close>

definition pathParameter :: "payload \<Rightarrow> string \<Rightarrow> Parameter \<Rightarrow> string" where
  "pathParameter input path param =
     (let name = Name param; style = Style param;
          noExplode = (Explode param = None \<or> Explode param = Some False)
      in case gjson_Get input name of
           None \<Rightarrow> path
         | Some (JArray raw items) \<Rightarrow>
             (let strs = map Result_String items
              in if style = ''simple'' \<or> style = [] then
                   strings_Replace1 path (placeholder name) (strings_Join strs '','')
                 else if style = ''label'' then
                   (if noExplode then
                      strings_Replace1 path (placeholder name) (''.'' @ strings_Join strs '','')
                    else
                      strings_Replace1 path (placeholder name) (''.'' @ strings_Join strs ''.''))
                 else if style = ''matrix'' then
                   (if noExplode then
                      strings_Replace1 path (placeholder name)
                        ('';'' @ name @ ''='' @ strings_Join strs '','')
                    else
                      strings_Replace1 path (placeholder name)
                        (concat (map (\<lambda>str. '';'' @ name @ ''='' @ str) strs)))
                 else path)
         | Some (JObject raw members) \<Rightarrow>
             (if style = ''simple'' \<or> style = [] then
                (if noExplode then
                   strings_Replace1 path (placeholder name)
                     (strings_Join (flattenMembers members) '','')
                 else
                   strings_Replace1 path (placeholder name)
                     (strings_Join (pairMembers members) '',''))
              else if style = ''label'' then
                (if noExplode then
                   strings_Replace1 path (placeholder name)
                     (''.'' @ strings_Join (flattenMembers members) '','')
                 else
                   strings_Replace1 path (placeholder name) (prefixedMembers ''.'' members))
              else if style = ''matrix'' then
                (if noExplode then
                   strings_Replace1 path (placeholder name)
                     ('';'' @ name @ ''='' @ strings_Join (flattenMembers members) '','')
                 else
                   strings_Replace1 path (placeholder name) (prefixedMembers '';'' members))
              else path)
         | Some res \<Rightarrow>
             (if style = ''simple'' \<or> style = [] then
                strings_Replace1 path (placeholder name) (Result_String res)
              else if style = ''label'' then
                strings_Replace1 path (placeholder name) (''.'' @ Result_String res)
              else if style = ''matrix'' then
                strings_Replace1 path (placeholder name)
                  ('';'' @ name @ ''='' @ Result_String res)
              else path))"

definition handlePathParameters :: "string \<Rightarrow> Parameter list \<Rightarrow> payload \<Rightarrow> string" where
  "handlePathParameters path params input = foldl (pathParameter input) path params"

section \<open>Query strings (package \<^verbatim>\<open>net/url\<close>)\<close>

text \<open>
  \<^verbatim>\<open>url.Values\<close> is a Go map from keys to lists of values; it is kept as an association
  list read through \<open>map_of\<close>. \<^verbatim>\<open>Values.Add\<close> appends the value to the list of its key.
\<close>

type_synonym Values = "(string \<times> string list) list"

definition Values_Get :: "Values \<Rightarrow> string \<Rightarrow> string list" where
  "Values_Get q key = (case map_of q key of None \<Rightarrow> [] | Some vs \<Rightarrow> vs)"

definition Values_Add :: "Values \<Rightarrow> string \<Rightarrow> string \<Rightarrow> Values" where
  "Values_Add q key v = AList.update key (Values_Get q key @ [v]) q"

text \<open>
  \<^verbatim>\<open>url.QueryEscape\<close>: letters, digits and \<^verbatim>\<open>-_.~\<close> are kept, a space becomes \<^verbatim>\<open>+\<close>,
  every other byte becomes \<^verbatim>\<open>%XX\<close> with upper-case hexadecimal digits.
\<close>

definition unreserved :: "char \<Rightarrow> bool" where
  "unreserved c =
     ((CHR ''a'' \<le> c \<and> c \<le> CHR ''z'') \<or> (CHR ''A'' \<le> c \<and> c \<le> CHR ''Z'') \<or>
      (CHR ''0'' \<le> c \<and> c \<le> CHR ''9'') \<or> c \<in> set ''-_.~'')"

definition upperhex :: "nat \<Rightarrow> char" where
  "upperhex n = ''0123456789ABCDEF'' ! (n mod 16)"

definition escapeByte :: "char \<Rightarrow> string" where
  "escapeByte c =
     (if unreserved c then [c]
      else if c = CHR '' '' then ''+''
      else [CHR ''%'', upperhex (of_char c div 16), upperhex (of_char c)])"

definition url_QueryEscape :: "string \<Rightarrow> string" where
  "url_QueryEscape s = concat (map escapeByte s)"

text \<open>
  \<^verbatim>\<open>Values.Encode\<close>: the keys are sorted, and every value of every key gives one
  \<^verbatim>\<open>key=value\<close> pair, both sides escaped; the pairs are separated by \<^verbatim>\<open>&\<close> (the source
  writes the separator before every pair but the first).
\<close>

definition encodePairs :: "Values \<Rightarrow> string \<Rightarrow> string list" where
  "encodePairs q key = map (\<lambda>v. url_QueryEscape key @ ''='' @ url_QueryEscape v) (Values_Get q key)"

definition Values_Encode :: "Values \<Rightarrow> string" where
  "Values_Encode q =
     strings_Join (concat (map (encodePairs q) (sort (remdups (map fst q))))) ''&''"

section \<open>Query parameters (\<^verbatim>\<open>handleQueryParameters\<close>)\<close>

text \<open>\<^verbatim>\<open>for _, item := range res.Array() { q.Add(param.Name, item.String()) }\<close>\<close>

definition addItems :: "Values \<Rightarrow> string \<Rightarrow> Result list \<Rightarrow> Values" where
  "addItems q name items = foldl (\<lambda>q item. Values_Add q name (Result_String item)) q items"

text \<open>The body of the loop of \<^verbatim>\<open>handleQueryParameters\<close>, for one parameter.\<close>

definition queryParameter :: "payload \<Rightarrow> Values \<Rightarrow> Parameter \<Rightarrow> Values" where
  "queryParameter input q param =
     (let name = Name param; style = Style param;
          explode = (Explode param = None \<or> Explode param = Some True)
      in case gjson_Get input name of
           None \<Rightarrow> q
         | Some (JArray raw items) \<Rightarrow>
             (if style = ''form'' \<or> style = [] then
                (if explode then addItems q name items
                 else Values_Add q name (strings_Join (map Result_String items) '',''))
              else if style = ''spaceDelimited'' then
                (if explode then addItems q name items
                 else Values_Add q name (strings_Join (map Result_String items) '' ''))
              else if style = ''pipeDelimited'' then
                (if explode then addItems q name items
                 else Values_Add q name (strings_Join (map Result_String items) ''|''))
              else q)
         | Some (JObject raw members) \<Rightarrow>
             (if style = ''form'' \<or> style = [] then
                (if explode then
                   foldl (\<lambda>q (k, v). Values_Add q k (Result_String v)) q (Result_Map members)
                 else Values_Add q name (strings_Join (flattenMembers members) '',''))
              else if style = ''deepObject'' then
                foldl (\<lambda>q (k, v). Values_Add q (name @ ''['' @ k @ '']'') (Result_String v)) q
                  (Result_Map members)
              else q)
         | Some res \<Rightarrow> Values_Add q name (Result_String res))"

definition handleQueryParameters :: "Values \<Rightarrow> Parameter list \<Rightarrow> payload \<Rightarrow> Values" where
  "handleQueryParameters q params input = foldl (queryParameter input) q params"

section \<open>The document model (package \<^verbatim>\<open>openapi3\<close>)\<close>

text \<open>
  An \<^verbatim>\<open>openapi3.SchemaRef\<close> together with the \<^verbatim>\<open>openapi3.Schema\<close> its \<^verbatim>\<open>Value\<close>
  points to, with the fields the source reads or writes. Schemas are finite trees: each
  node is a value of its own, so a schema object that the document shares between two
  places (through \<^verbatim>\<open>$ref\<close>) appears here as two equal copies, and a cyclic schema has
  no counterpart.
\<close>

datatype SchemaRef =
  SchemaRef (Ref: string) (Type: string) (Description: string) (ReadOnly: bool)
    (Discriminator: "string option") (OneOf: "SchemaRef list") (AnyOf: "SchemaRef list")
    (AllOf: "SchemaRef list") (Not_schema: "SchemaRef option") (Items: "SchemaRef option")
    (Properties: "(string \<times> SchemaRef) list") (Required: "string list")

definition withRef :: "string \<Rightarrow> SchemaRef \<Rightarrow> SchemaRef" where
  "withRef r s = (case s of SchemaRef _ ty d ro di one any all n it ps rq \<Rightarrow>
     SchemaRef r ty d ro di one any all n it ps rq)"

definition withDescription :: "string \<Rightarrow> SchemaRef \<Rightarrow> SchemaRef" where
  "withDescription d s = (case s of SchemaRef r ty _ ro di one any all n it ps rq \<Rightarrow>
     SchemaRef r ty d ro di one any all n it ps rq)"

definition withProperties :: "(string \<times> SchemaRef) list \<Rightarrow> SchemaRef \<Rightarrow> SchemaRef" where
  "withProperties ps s = (case s of SchemaRef r ty d ro di one any all n it _ rq \<Rightarrow>
     SchemaRef r ty d ro di one any all n it ps rq)"

definition withRequired :: "string list \<Rightarrow> SchemaRef \<Rightarrow> SchemaRef" where
  "withRequired rq s = (case s of SchemaRef r ty d ro di one any all n it ps _ \<Rightarrow>
     SchemaRef r ty d ro di one any all n it ps rq)"

text \<open>
  \<^verbatim>\<open>removeRefs\<close> clears \<^verbatim>\<open>Ref\<close> and \<^verbatim>\<open>Discriminator\<close> in the whole tree. The source
  mutates the document in place; the model returns the new tree.
\<close>

primrec removeRefs :: "SchemaRef \<Rightarrow> SchemaRef" where
  "removeRefs (SchemaRef r ty d ro di one any all n it ps rq) =
     SchemaRef [] ty d ro None (map removeRefs one) (map removeRefs any) (map removeRefs all)
       (map_option removeRefs n) (map_option removeRefs it)
       (map (map_prod id removeRefs) ps) rq"

text \<open>
  \<^verbatim>\<open>openapi3.Parameter\<close>; \<open>param_Schema = None\<close> is a nil \<^verbatim>\<open>Schema\<close> pointer (a
  parameter that is described by \<^verbatim>\<open>content\<close> instead of \<^verbatim>\<open>schema\<close>).
\<close>

record ParameterDecl =
  param_Name :: string
  param_In :: string
  param_Description :: string
  param_Style :: string
  param_Explode :: "bool option"
  param_Required :: bool
  param_Schema :: "SchemaRef option"

text \<open>
  \<^verbatim>\<open>openapi3.Operation\<close>. \<open>op_Servers\<close> is empty for a nil or empty server list.
  \<open>RequestBody\<close> holds the content map of the request body, when there is one, as the
  list of its entries in the order of the \<^verbatim>\<open>range\<close> loop: MIME type and the schema of
  the media type (\<open>None\<close> for a nil \<^verbatim>\<open>Schema\<close> pointer).
\<close>

record Operation =
  OperationID :: string
  op_Servers :: "Server list"
  op_Parameters :: "ParameterDecl list"
  RequestBody :: "(string \<times> SchemaRef option) list option"

text \<open>
  \<^verbatim>\<open>openapi3.PathItem\<close>; \<open>Operations\<close> lists the entries of the map that
  \<^verbatim>\<open>pathItem.Operations()\<close> returns (HTTP method and operation), in the order of the
  \<^verbatim>\<open>range\<close> loop.
\<close>

record PathItem =
  item_Servers :: "Server list"
  item_Parameters :: "ParameterDecl list"
  Operations :: "(string \<times> Operation) list"

text \<open>\<^verbatim>\<open>openapi3.T\<close>; \<open>Paths\<close> lists the entries of \<^verbatim>\<open>t.Paths.Map()\<close> in the order of the loop.\<close>

record T =
  doc_Servers :: "Server list"
  Paths :: "(string \<times> PathItem) list"

section \<open>Schema extraction (\<^verbatim>\<open>GetSchema\<close>)\<close>

definition supportedMIMETypes :: "string list" where
  "supportedMIMETypes =
     [''application/json'', ''application/x-www-form-urlencoded'', ''multipart/form-data'']"

text \<open>The initial \<^verbatim>\<open>arguments\<close> schema and the initial \<^verbatim>\<open>info\<close>.\<close>

definition emptyArguments :: SchemaRef where
  "emptyArguments = SchemaRef [] ''object'' [] False None [] [] [] None None [] []"

definition emptyInfo :: OperationInfo where
  "emptyInfo = \<lparr>Server = [], Path = [], Method = [], BodyContentMIME = [],
     QueryParams = [], PathParams = [], HeaderParams = [], CookieParams = []\<rparr>"

text \<open>\<^verbatim>\<open>arguments.Properties[name] = &openapi3.SchemaRef{Value: arg}\<close>\<close>

definition storeProperty :: "string \<Rightarrow> SchemaRef \<Rightarrow> SchemaRef \<Rightarrow> SchemaRef" where
  "storeProperty name arg arguments =
     withProperties (AList.update name (withRef [] arg) (Properties arguments)) arguments"

text \<open>The \<^verbatim>\<open>switch param.Value.In\<close> that files the parameter under its location.\<close>

definition saveParameter :: "string \<Rightarrow> Parameter \<Rightarrow> OperationInfo \<Rightarrow> OperationInfo" where
  "saveParameter loc p info =
     (if loc = ''query'' then info\<lparr>QueryParams := QueryParams info @ [p]\<rparr>
      else if loc = ''path'' then info\<lparr>PathParams := PathParams info @ [p]\<rparr>
      else if loc = ''header'' then info\<lparr>HeaderParams := HeaderParams info @ [p]\<rparr>
      else if loc = ''cookie'' then info\<lparr>CookieParams := CookieParams info @ [p]\<rparr>
      else info)"

definition toParameter :: "ParameterDecl \<Rightarrow> Parameter" where
  "toParameter param =
     \<lparr>Name = param_Name param, Style = param_Style param, Explode = param_Explode param\<rparr>"

text \<open>The body of the loop over the merged parameters, for one parameter.\<close>

definition processParameter ::
  "SchemaRef \<times> OperationInfo \<Rightarrow> ParameterDecl \<Rightarrow> error + SchemaRef \<times> OperationInfo" where
  "processParameter st param =
     (case param_Schema param of
        None \<Rightarrow> Inl NilPointerPanic
      | Some r \<Rightarrow>
          (let arg0 = removeRefs r;
               arg = (if Description arg0 = [] then withDescription (param_Description param) arg0
                      else arg0);
               arguments1 = storeProperty (param_Name param) arg (fst st);
               arguments2 = (if param_Required param
                             then withRequired (Required arguments1 @ [param_Name param]) arguments1
                             else arguments1)
           in Inr (arguments2, saveParameter (param_In param) (toParameter param) (snd st))))"

fun processParameters ::
  "SchemaRef \<times> OperationInfo \<Rightarrow> ParameterDecl list \<Rightarrow> error + SchemaRef \<times> OperationInfo" where
  "processParameters st [] = Inr st"
| "processParameters st (param # params) =
     (case processParameter st param of
        Inl e \<Rightarrow> Inl e
      | Inr st' \<Rightarrow> processParameters st' params)"

text \<open>
  The request body: the first entry of the content map with a supported MIME type is
  taken, its read-only properties are deleted, and it becomes the property
  \<^verbatim>\<open>requestBodyContent\<close>.
\<close>

definition processRequestBody ::
  "string \<Rightarrow> SchemaRef \<times> OperationInfo \<Rightarrow> (string \<times> SchemaRef option) list
     \<Rightarrow> error + SchemaRef \<times> OperationInfo" where
  "processRequestBody operationID st content =
     (case find (\<lambda>(mime, schema). mime \<in> set supportedMIMETypes) content of
        None \<Rightarrow> Inl (UnsupportedBodyMIME operationID)
      | Some (mime, None) \<Rightarrow> Inl NilPointerPanic
      | Some (mime, Some r) \<Rightarrow>
          (let arg0 = removeRefs r;
               arg1 = (if Description arg0 = [] then withDescription (Description arg0) arg0
                       else arg0);
               arg = withProperties (filter (\<lambda>(key, property). \<not> ReadOnly property)
                       (Properties arg1)) arg1;
               arguments1 = storeProperty ''requestBodyContent'' arg (fst st);
               arguments2 = withRequired (Required arguments1 @ [''requestBodyContent''])
                              arguments1
           in Inr (arguments2, (snd st)\<lparr>BodyContentMIME := mime\<rparr>)))"

text \<open>The first server of a list, resolved, or the inherited server when the list is empty.\<close>

definition resolveServer :: "Server list \<Rightarrow> string \<Rightarrow> error + string" where
  "resolveServer servers inherited =
     (case servers of [] \<Rightarrow> Inr inherited | server # _ \<Rightarrow> parseServer server)"

text \<open>What \<^verbatim>\<open>GetSchema\<close> does with the operation whose identifier matches.\<close>

definition extractOperation ::
  "string \<Rightarrow> string \<Rightarrow> PathItem \<Rightarrow> string \<Rightarrow> string \<Rightarrow> Operation
     \<Rightarrow> error + SchemaRef \<times> OperationInfo" where
  "extractOperation operationID path pathItem pathServer method operation =
     (case resolveServer (op_Servers operation) pathServer of
        Inl e \<Rightarrow> Inl e
      | Inr operationServer \<Rightarrow>
          (case processParameters
                  (emptyArguments,
                   emptyInfo\<lparr>Server := operationServer, Path := path, Method := method\<rparr>)
                  (op_Parameters operation @ item_Parameters pathItem) of
             Inl e \<Rightarrow> Inl e
           | Inr st \<Rightarrow>
               (case RequestBody operation of
                  None \<Rightarrow> Inr st
                | Some content \<Rightarrow> processRequestBody operationID st content)))"

text \<open>The inner loop over the operations of one path item; \<open>None\<close>: no operation matched.\<close>

fun scanOperations ::
  "string \<Rightarrow> string \<Rightarrow> PathItem \<Rightarrow> string \<Rightarrow> (string \<times> Operation) list
     \<Rightarrow> (error + SchemaRef \<times> OperationInfo) option" where
  "scanOperations operationID path pathItem pathServer [] = None"
| "scanOperations operationID path pathItem pathServer ((method, operation) # rest) =
     (if OperationID operation = operationID
      then Some (extractOperation operationID path pathItem pathServer method operation)
      else scanOperations operationID path pathItem pathServer rest)"

text \<open>The outer loop over the path items; \<open>Inr None\<close> is \<^verbatim>\<open>found = false\<close> with a nil error.\<close>

fun scanPaths ::
  "string \<Rightarrow> string \<Rightarrow> (string \<times> PathItem) list
     \<Rightarrow> error + (SchemaRef \<times> OperationInfo) option" where
  "scanPaths operationID defaultServer [] = Inr None"
| "scanPaths operationID defaultServer ((path, pathItem) # rest) =
     (case resolveServer (item_Servers pathItem) defaultServer of
        Inl e \<Rightarrow> Inl e
      | Inr pathServer \<Rightarrow>
          (case scanOperations operationID path pathItem pathServer (Operations pathItem) of
             Some (Inl e) \<Rightarrow> Inl e
           | Some (Inr r) \<Rightarrow> Inr (Some r)
           | None \<Rightarrow> scanPaths operationID defaultServer rest))"

text \<open>
  \<^verbatim>\<open>GetSchema\<close>. The argument \<open>file\<close> is what \<^verbatim>\<open>loader.LoadFromFile(file)\<close> returns: the
  document, or the message of the load error. The schema is returned as a value; the
  source returns its rendering by \<^verbatim>\<open>json.MarshalIndent\<close>.
\<close>

definition GetSchema ::
  "string \<Rightarrow> string + T \<Rightarrow> error + (SchemaRef \<times> OperationInfo) option" where
  "GetSchema operationID file =
     (case file of
        Inl msg \<Rightarrow> Inl (DocumentLoadError msg)
      | Inr t \<Rightarrow>
          (case resolveServer (doc_Servers t) [] of
             Inl e \<Rightarrow> Inl e
           | Inr defaultServer \<Rightarrow> scanPaths operationID defaultServer (Paths t)))"

section \<open>The HTTP request (\<^verbatim>\<open>Run\<close>)\<close>

text \<open>
  The request under construction. \<open>req_URL\<close> is the URL that \<^verbatim>\<open>http.NewRequest\<close>
  received, \<open>RawQuery\<close> the query string that \<^verbatim>\<open>Run\<close> assigns to it afterwards.
  Headers are kept like \<^verbatim>\<open>url.Values\<close> (names as given, not in canonical form);
  cookies are kept as the list of the \<^verbatim>\<open>http.Cookie\<close> values added. The body is kept
  as what is written, before its encoding to bytes.
\<close>

datatype Body =
    JSONBody "Result option"
  | TextBody string
  | MultipartBody "(string \<times> string) list"

record Request =
  req_Method :: string
  req_URL :: string
  RawQuery :: string
  Header :: Values
  Cookies :: "(string \<times> string) list"
  req_Body :: "Body option"

definition Header_Set :: "Values \<Rightarrow> string \<Rightarrow> string \<Rightarrow> Values" where
  "Header_Set h key v = AList.update key [v] h"

text \<open>The body of the loop of \<^verbatim>\<open>handleHeaderParameters\<close>, for one parameter.\<close>

definition headerParameter :: "payload \<Rightarrow> Values \<Rightarrow> Parameter \<Rightarrow> Values" where
  "headerParameter input h param =
     (case gjson_Get input (Name param) of
        None \<Rightarrow> h
      | Some (JArray raw items) \<Rightarrow>
          Values_Add h (Name param) (strings_Join (map Result_String items) '','')
      | Some (JObject raw members) \<Rightarrow>
          (if Explode param = None \<or> Explode param = Some False
           then Values_Add h (Name param) (strings_Join (flattenMembers members) '','')
           else Values_Add h (Name param) (strings_Join (pairMembers members) '',''))
      | Some res \<Rightarrow> Values_Add h (Name param) (Result_String res))"

definition handleHeaderParameters :: "Values \<Rightarrow> Parameter list \<Rightarrow> payload \<Rightarrow> Values" where
  "handleHeaderParameters h params input = foldl (headerParameter input) h params"

text \<open>The body of the loop of \<^verbatim>\<open>handleCookieParameters\<close>, for one parameter.\<close>

definition cookieParameter ::
  "payload \<Rightarrow> (string \<times> string) list \<Rightarrow> Parameter \<Rightarrow> (string \<times> string) list" where
  "cookieParameter input cs param =
     (case gjson_Get input (Name param) of
        None \<Rightarrow> cs
      | Some (JArray raw items) \<Rightarrow>
          cs @ [(Name param, strings_Join (map Result_String items) '','')]
      | Some (JObject raw members) \<Rightarrow>
          cs @ [(Name param, strings_Join (flattenMembers members) '','')]
      | Some res \<Rightarrow> cs @ [(Name param, Result_String res)])"

definition handleCookieParameters ::
  "(string \<times> string) list \<Rightarrow> Parameter list \<Rightarrow> payload \<Rightarrow> (string \<times> string) list" where
  "handleCookieParameters cs params input = foldl (cookieParameter input) cs params"

text \<open>
  The environment, as \<^verbatim>\<open>os.Getenv\<close> reports it: the value of the variable, or the empty
  string when the variable is not set.
\<close>

record Env =
  OPENAPI_BEARER :: string
  OPENAPI_QUERY_KEY :: string

text \<open>
  The query string of the request (lines 67 to 71 of \<^verbatim>\<open>run.go\<close>): the encoded query
  parameters, followed by the key of the environment when there is one. \<open>q\<close> is the
  query that the request URL already carries (\<^verbatim>\<open>req.URL.Query()\<close>).
\<close>

definition compileRawQuery :: "Env \<Rightarrow> Values \<Rightarrow> Parameter list \<Rightarrow> payload \<Rightarrow> string" where
  "compileRawQuery env q params input =
     (let raw = Values_Encode (handleQueryParameters q params input)
      in if OPENAPI_QUERY_KEY env \<noteq> []
         then raw @ ''&'' @ ''key='' @ url_QueryEscape (OPENAPI_QUERY_KEY env)
         else raw)"

text \<open>
  The request body (lines 78 to 123 of \<^verbatim>\<open>run.go\<close>), for a non-empty
  \<^verbatim>\<open>BodyContentMIME\<close>: the value of the \<^verbatim>\<open>Content-Type\<close> header and the body, or the
  error. \<open>boundary\<close> is the boundary that \<^verbatim>\<open>multipart.NewWriter\<close> draws at random.
\<close>

definition compileBody :: "string \<Rightarrow> string \<Rightarrow> payload \<Rightarrow> error + string \<times> Body" where
  "compileBody boundary mime input =
     (let res = gjson_Get input ''requestBodyContent''
      in if mime = ''application/json'' then Inr (''application/json'', JSONBody res)
         else if mime = ''text/plain'' then
           Inr (''text/plain'', TextBody (case res of None \<Rightarrow> [] | Some r \<Rightarrow> Result_String r))
         else if mime = ''multipart/form-data'' then
           (case res of
              Some (JObject raw members) \<Rightarrow>
                Inr (''multipart/form-data; boundary='' @ boundary,
                     MultipartBody (map (\<lambda>(k, v). (k, Result_String v)) (Result_Map members)))
            | _ \<Rightarrow> Inl InvalidBodyShape)
         else Inl (UnsupportedMIME mime))"

text \<open>
  What \<^verbatim>\<open>Run\<close> calls outside this repository. Each function returns its result or the
  message of its error. \<open>Validate\<close> returns the list of the violations it found (empty
  when the arguments are valid); \<open>url_Parse\<close> returns \<^verbatim>\<open>u.String()\<close>; \<open>http_NewRequest\<close>
  returns the query that the new request's URL carries; \<open>http_Do\<close> performs the request
  and \<open>io_ReadAll\<close> reads the body of its response.
\<close>

record 'resp Externals =
  Validate :: "SchemaRef \<Rightarrow> payload \<Rightarrow> string + string list"
  url_JoinPath :: "string \<Rightarrow> string \<Rightarrow> string + string"
  url_Parse :: "string \<Rightarrow> string + string"
  http_NewRequest :: "string \<Rightarrow> string \<Rightarrow> string + Values"
  multipart_boundary :: string
  http_Do :: "Request \<Rightarrow> string + 'resp"
  io_ReadAll :: "'resp \<Rightarrow> string + string"

text \<open>
  Lines 41 to 123 of \<^verbatim>\<open>Run\<close>: from the operation descriptor and the validated
  arguments to the request, or to the error that stops the construction.
\<close>

definition buildRequest ::
  "'resp Externals \<Rightarrow> Env \<Rightarrow> OperationInfo \<Rightarrow> payload \<Rightarrow> error + Request" where
  "buildRequest ext env opInfo args =
     (let path = handlePathParameters (Path opInfo) (PathParams opInfo) args
      in case url_JoinPath ext (Server opInfo) path of
           Inl msg \<Rightarrow> Inl (JoinPathError msg)
         | Inr joined \<Rightarrow>
             (case url_Parse ext joined of
                Inl msg \<Rightarrow> Inl (ParseURLError msg)
              | Inr u \<Rightarrow>
                  (case http_NewRequest ext (Method opInfo) u of
                     Inl msg \<Rightarrow> Inl (NewRequestError msg)
                   | Inr q \<Rightarrow>
                       (let h0 = (if OPENAPI_BEARER env \<noteq> []
                                  then Header_Set [] ''Authorization''
                                         (''Bearer '' @ OPENAPI_BEARER env)
                                  else []);
                            raw = compileRawQuery env q (QueryParams opInfo) args;
                            h1 = handleHeaderParameters h0 (HeaderParams opInfo) args;
                            cs = handleCookieParameters [] (CookieParams opInfo) args;
                            req = \<lparr>req_Method = Method opInfo, req_URL = u, RawQuery = raw,
                                   Header = h1, Cookies = cs, req_Body = None\<rparr>
                        in if BodyContentMIME opInfo \<noteq> [] then
                             (case compileBody (multipart_boundary ext) (BodyContentMIME opInfo)
                                     args of
                                Inl e \<Rightarrow> Inl e
                              | Inr (contentType, body) \<Rightarrow>
                                  Inr (req\<lparr>Header := Header_Set h1 ''Content-Type'' contentType,
                                           req_Body := Some body\<rparr>))
                           else Inr req))))"

text \<open>
  \<^verbatim>\<open>Run\<close>. \<open>args\<close> is the parsed argument string, \<open>None\<close> for the empty string (which
  the source replaces by \<^verbatim>\<open>{}\<close>). The result is paired with the list of the requests
  that were handed to the HTTP client. In the result, \<open>Inr (output, found)\<close> is a return
  with a nil error.
\<close>

definition Run ::
  "'resp Externals \<Rightarrow> Env \<Rightarrow> string \<Rightarrow> string + T \<Rightarrow> payload option
     \<Rightarrow> (error + string \<times> bool) \<times> Request list" where
  "Run ext env operationID file args0 =
     (let args = (case args0 of None \<Rightarrow> [] | Some a \<Rightarrow> a)
      in case GetSchema operationID file of
           Inl e \<Rightarrow> (Inl e, [])
         | Inr None \<Rightarrow> (Inr ([], False), [])
         | Inr (Some (schema, opInfo)) \<Rightarrow>
             (case Validate ext schema args of
                Inl msg \<Rightarrow> (Inl (ValidatorError msg), [])
              | Inr violations \<Rightarrow>
                  if violations \<noteq> [] then (Inl (ValidationError operationID violations), [])
                  else
                    (case buildRequest ext env opInfo args of
                       Inl e \<Rightarrow> (Inl e, [])
                     | Inr req \<Rightarrow>
                         (case http_Do ext req of
                            Inl msg \<Rightarrow> (Inl (TransportError msg), [req])
                          | Inr resp \<Rightarrow>
                              (case io_ReadAll ext resp of
                                 Inl msg \<Rightarrow> (Inl (ReadResponseError msg), [req])
                               | Inr result \<Rightarrow> (Inr (result, True), [req]))))))"

section \<open>Notions used to state the properties\<close>

text \<open>
  The value that \<^verbatim>\<open>parseServer\<close> substitutes for a server variable: its default, or its
  first enumerated value when the default is empty; \<open>None\<close> when it has neither.
\<close>

definition variableValue :: "ServerVariable \<Rightarrow> string option" where
  "variableValue variable =
     (if Default variable \<noteq> [] then Some (Default variable)
      else (case Enum variable of e # _ \<Rightarrow> Some e | [] \<Rightarrow> None))"


text \<open>A value that is neither an array nor an object.\<close>

definition isScalar :: "Result \<Rightarrow> bool" where
  "isScalar res =
     (case res of JArray raw items \<Rightarrow> False | JObject raw members \<Rightarrow> False | _ \<Rightarrow> True)"



section \<open>Inputs used in examples\<close>

definition envServer :: Server where
  "envServer = \<lparr>URL = ''https://{env}.example.com'',
     Variables = [(''env'', Some \<lparr>Enum = [], Default = ''api''\<rparr>)]\<rparr>"

definition relativeServer :: Server where
  "relativeServer = \<lparr>URL = ''/api/v1'', Variables = []\<rparr>"

definition repeatedTokenServer :: Server where
  "repeatedTokenServer = \<lparr>URL = ''https://{env}.example.com/{env}'',
     Variables = [(''env'', Some \<lparr>Enum = [], Default = ''api''\<rparr>)]\<rparr>"

definition listPets :: Operation where
  "listPets = \<lparr>OperationID = ''listPets'', op_Servers = [], op_Parameters = [],
     RequestBody = None\<rparr>"

definition relativeServerDocument :: T where
  "relativeServerDocument = \<lparr>doc_Servers = [relativeServer],
     Paths = [(''/pets'', \<lparr>item_Servers = [], item_Parameters = [],
                Operations = [(''GET'', listPets)]\<rparr>)]\<rparr>"

definition idsParameter :: Parameter where
  "idsParameter = \<lparr>Name = ''ids'', Style = ''simple'', Explode = None\<rparr>"

definition idsPayload :: payload where
  "idsPayload = [(''ids'', JArray ''[1,2]'' [JNumber ''1'', JNumber ''2''])]"

definition filterParameter :: Parameter where
  "filterParameter = \<lparr>Name = ''filter'', Style = ''deepObject'', Explode = None\<rparr>"

text \<open>
  Collaborators under which every step outside the repository succeeds: any arguments are
  valid, the URL is the server followed by the path and carries no query, and the
  transport answers \<^verbatim>\<open>ok\<close>.
\<close>

definition permissive :: "unit Externals" where
  "permissive = \<lparr>Validate = (\<lambda>schema args. Inr []),
     url_JoinPath = (\<lambda>server path. Inr (server @ path)),
     url_Parse = (\<lambda>u. Inr u),
     http_NewRequest = (\<lambda>method u. Inr []),
     multipart_boundary = ''boundary'',
     http_Do = (\<lambda>req. Inr ()),
     io_ReadAll = (\<lambda>resp. Inr ''ok'')\<rparr>"

definition keyEnv :: Env where
  "keyEnv = \<lparr>OPENAPI_BEARER = [], OPENAPI_QUERY_KEY = ''v''\<rparr>"

definition petsDocument :: T where
  "petsDocument = \<lparr>doc_Servers = [envServer],
     Paths = [(''/pets'', \<lparr>item_Servers = [], item_Parameters = [],
                Operations = [(''GET'', listPets)]\<rparr>)]\<rparr>"

definition objectSchema :: SchemaRef where
  "objectSchema = SchemaRef [] ''object'' [] False None [] [] [] None None [] []"

definition formDocument :: T where
  "formDocument = \<lparr>doc_Servers = [envServer],
     Paths = [(''/forms'', \<lparr>item_Servers = [], item_Parameters = [],
       Operations = [(''POST'', \<lparr>OperationID = ''submitForm'', op_Servers = [],
         op_Parameters = [],
         RequestBody = Some [(''application/x-www-form-urlencoded'', Some objectSchema)]\<rparr>)]\<rparr>)]\<rparr>"

definition multipartDocument :: T where
  "multipartDocument = \<lparr>doc_Servers = [envServer],
     Paths = [(''/files'', \<lparr>item_Servers = [], item_Parameters = [],
       Operations = [(''POST'', \<lparr>OperationID = ''upload'', op_Servers = [],
         op_Parameters = [],
         RequestBody = Some [(''multipart/form-data'', Some objectSchema)]\<rparr>)]\<rparr>)]\<rparr>"

text \<open>
  A validator that reports the required properties that the payload lacks, and nothing
  else; a JSON Schema validator reports at least these.
\<close>

definition validateRequired :: "SchemaRef \<Rightarrow> payload \<Rightarrow> string + string list" where
  "validateRequired schema args =
     Inr (map (\<lambda>name. name @ '' is required'')
            (filter (\<lambda>name. gjson_Get args name = None) (Required schema)))"

definition tagsParameter :: Parameter where
  "tagsParameter = \<lparr>Name = ''tags'', Style = ''form'', Explode = None\<rparr>"

definition tagsPayload :: payload where
  "tagsPayload = [(''tags'', JArray ''[\"a\",\"b\"]'' [JString ''a'', JString ''b''])]"

definition integerSchema :: SchemaRef where
  "integerSchema = SchemaRef [] ''integer'' [] False None [] [] [] None None [] []"

definition stringSchema :: SchemaRef where
  "stringSchema = SchemaRef [] ''string'' [] False None [] [] [] None None [] []"

definition limitOfOperation :: ParameterDecl where
  "limitOfOperation = \<lparr>param_Name = ''limit'', param_In = ''query'',
     param_Description = ''limit of the operation'', param_Style = [], param_Explode = None,
     param_Required = False, param_Schema = Some integerSchema\<rparr>"

definition limitOfPathItem :: ParameterDecl where
  "limitOfPathItem = \<lparr>param_Name = ''limit'', param_In = ''query'',
     param_Description = ''limit of the path item'', param_Style = ''form'',
     param_Explode = None, param_Required = False, param_Schema = Some stringSchema\<rparr>"

definition searchOperation :: Operation where
  "searchOperation = \<lparr>OperationID = ''search'', op_Servers = [],
     op_Parameters = [limitOfOperation], RequestBody = None\<rparr>"

definition searchPathItem :: PathItem where
  "searchPathItem = \<lparr>item_Servers = [], item_Parameters = [limitOfPathItem],
     Operations = [(''GET'', searchOperation)]\<rparr>"

definition searchDocument :: T where
  "searchDocument = \<lparr>doc_Servers = [envServer], Paths = [(''/search'', searchPathItem)]\<rparr>"

section \<open>Properties of the string functions\<close>

lemma strings_HasPrefix_append: "strings_HasPrefix (p @ s) p"
  by (simp add: strings_HasPrefix_def)

lemma strings_HasPrefix_sublist: "strings_HasPrefix s p \<Longrightarrow> sublist p s"
  unfolding strings_HasPrefix_def
  by (metis append_take_drop_id sublist_append_rightI)

lemma take_prefix_of_append: "n \<le> length xs \<Longrightarrow> take n (xs @ ys) = take n xs"
  by simp

text \<open>
  When \<open>old\<close> occurs after \<open>pre\<close> and nowhere earlier, \<^verbatim>\<open>strings.Replace(_, old, new, 1)\<close>
  rewrites exactly that occurrence.
\<close>

lemma strings_Replace1_first:
  "old \<noteq> [] \<Longrightarrow> \<not> sublist old (pre @ butlast old)
     \<Longrightarrow> strings_Replace1 (pre @ old @ post) old new = pre @ new @ post"
proof (induction pre)
  case Nil
  then obtain c cs where old: "old = c # cs" by (cases old) auto
  have "strings_HasPrefix (old @ post) old" by (rule strings_HasPrefix_append)
  then show ?case using old by simp
next
  case (Cons p ps)
  have no: "\<not> strings_HasPrefix (p # ps @ old @ post) old"
  proof
    assume h: "strings_HasPrefix (p # ps @ old @ post) old"
    have split: "p # ps @ old @ post = ((p # ps) @ butlast old) @ ([last old] @ post)"
      using Cons.prems(1) by simp
    have "take (length old) (((p # ps) @ butlast old) @ ([last old] @ post))
          = take (length old) ((p # ps) @ butlast old)"
      by (rule take_prefix_of_append) simp
    with h have "strings_HasPrefix ((p # ps) @ butlast old) old"
      unfolding strings_HasPrefix_def split by simp
    then have "sublist old ((p # ps) @ butlast old)" by (rule strings_HasPrefix_sublist)
    with Cons.prems(2) show False by simp
  qed
  have "\<not> sublist old (ps @ butlast old)"
    using Cons.prems(2) by (auto simp: sublist_Cons_right)
  with Cons.IH Cons.prems(1) have "strings_Replace1 (ps @ old @ post) old new = ps @ new @ post"
    by simp
  with no show ?case by simp
qed

lemma placeholder_nonempty: "placeholder name \<noteq> []"
  by (simp add: placeholder_def)

section \<open>Server resolution\<close>

lemma substituteVariables_append:
  "substituteVariables s (xs @ ys) = substituteVariables (substituteVariables s xs) ys"
  by (simp add: substituteVariables_def)

lemma substituteVariables_Cons:
  "substituteVariables s (x # xs) = substituteVariables (substituteVariable s x) xs"
  by (simp add: substituteVariables_def)

text \<open>
  Claim C2, as stated, fails: \<^verbatim>\<open>parseServer\<close> calls \<^verbatim>\<open>strings.Replace\<close> with the count 1, so
  a token that occurs twice in the URL template is replaced once. For the server
  \<^verbatim>\<open>https://{env}.example.com/{env}\<close> with the default \<^verbatim>\<open>api\<close> for \<^verbatim>\<open>env\<close>, the second
  occurrence of the token stays in the resolved URL.
\<close>

theorem parseServer_repeated_token_counterexample:
  "parseServer repeatedTokenServer = Inr ''https://api.example.com/{env}''"
  by (simp add: parseServer_def repeatedTokenServer_def substituteVariables_def placeholder_def
      strings_HasPrefix_def)

text \<open>
  Claim C2, amended: for every server entry and every declared server variable that has a
  default or an enumerated value, server resolution replaces the first occurrence of the
  token \<^verbatim>\<open>{variableName}\<close> in the URL (as the variables visited before have left it) with
  the variable's default, or with its first enumerated value when the default is empty;
  the text before and after that occurrence is kept. The second hypothesis says that the
  occurrence after \<open>pre\<close> is the first one.
\<close>

theorem parseServer_replaces_first_occurrence:
  assumes "substituteVariables url before = pre @ placeholder name @ post"
    and "\<not> sublist (placeholder name) (pre @ butlast (placeholder name))"
    and "variableValue variable = Some v"
  shows "parseServer \<lparr>URL = url, Variables = before @ (name, Some variable) # after\<rparr>
         = parseServer \<lparr>URL = pre @ v @ post, Variables = after\<rparr>"
proof -
  have "substituteVariable (pre @ placeholder name @ post) (name, Some variable) = pre @ v @ post"
    using assms(2,3) strings_Replace1_first [OF placeholder_nonempty, of name pre post]
    by (auto simp: variableValue_def split: if_splits list.splits)
  then show ?thesis
    using assms(1)
    by (simp add: parseServer_def substituteVariables_append substituteVariables_Cons)
qed

theorem parseServer_replaces_first_occurrence_witness:
  "parseServer repeatedTokenServer
   = parseServer \<lparr>URL = ''https://'' @ ''api'' @ ''.example.com/{env}'', Variables = []\<rparr>"
  using parseServer_replaces_first_occurrence [of "''https://{env}.example.com/{env}''" "[]"
      "''https://''" "''env''" "''.example.com/{env}''" "\<lparr>Enum = [], Default = ''api''\<rparr>"
      "''api''" "[]"]
  by (simp add: repeatedTokenServer_def substituteVariables_def placeholder_def
      variableValue_def sublist_Cons_right prefix_Cons)

text \<open>
  Claim C7: server resolution fails exactly when the URL obtained after the substitution
  of the variables does not begin with \<^verbatim>\<open>http\<close> (which \<^verbatim>\<open>https\<close> begins with, too), and
  the failure is \<^verbatim>\<open>InvalidServerURL\<close>; the server \<^verbatim>\<open>https://{env}.example.com\<close> with the
  default \<^verbatim>\<open>api\<close> for \<^verbatim>\<open>env\<close> resolves to \<^verbatim>\<open>https://api.example.com\<close>; and a document
  whose server does not resolve to a URL that begins with \<^verbatim>\<open>http\<close> fails extraction,
  for every operation identifier.
\<close>

theorem parseServer_InvalidServerURL:
  "((\<exists>e. parseServer server = Inl e)
      \<longleftrightarrow> \<not> strings_HasPrefix (substituteVariables (URL server) (Variables server)) ''http'')
   \<and> (\<forall>e. parseServer server = Inl e
        \<longrightarrow> e = InvalidServerURL (substituteVariables (URL server) (Variables server)))
   \<and> parseServer envServer = Inr ''https://api.example.com''
   \<and> (doc_Servers t = server # rest
        \<and> \<not> strings_HasPrefix (substituteVariables (URL server) (Variables server)) ''http''
        \<longrightarrow> GetSchema operationID (Inr t)
            = Inl (InvalidServerURL (substituteVariables (URL server) (Variables server))))"
proof -
  let ?s = "substituteVariables (URL server) (Variables server)"
  have a: "(\<exists>e. parseServer server = Inl e) \<longleftrightarrow> \<not> strings_HasPrefix ?s ''http''"
    by (simp add: parseServer_def Let_def)
  have b: "\<forall>e. parseServer server = Inl e \<longrightarrow> e = InvalidServerURL ?s"
    by (simp add: parseServer_def Let_def)
  have c: "parseServer envServer = Inr ''https://api.example.com''"
    by (simp add: parseServer_def envServer_def substituteVariables_def placeholder_def
        strings_HasPrefix_def)
  have d: "doc_Servers t = server # rest \<and> \<not> strings_HasPrefix ?s ''http''
        \<longrightarrow> GetSchema operationID (Inr t) = Inl (InvalidServerURL ?s)"
    by (simp add: parseServer_def Let_def GetSchema_def resolveServer_def)
  from a b c d show ?thesis by blast
qed

theorem parseServer_InvalidServerURL_witness:
  "parseServer relativeServer = Inl (InvalidServerURL ''/api/v1'')
   \<and> GetSchema ''listPets'' (Inr relativeServerDocument) = Inl (InvalidServerURL ''/api/v1'')"
  using parseServer_InvalidServerURL [of relativeServer relativeServerDocument "[]" "''listPets''"]
  by (simp add: relativeServer_def relativeServerDocument_def substituteVariables_def
      strings_HasPrefix_def parseServer_def)

section \<open>Parameter serialization\<close>

lemma handlePathParameters_append:
  "handlePathParameters path (xs @ ys) input
   = handlePathParameters (handlePathParameters path xs input) ys input"
  by (simp add: handlePathParameters_def)

lemma handlePathParameters_Cons:
  "handlePathParameters path (x # xs) input
   = handlePathParameters (pathParameter input path x) xs input"
  by (simp add: handlePathParameters_def)

lemma handleQueryParameters_append:
  "handleQueryParameters q (xs @ ys) input
   = handleQueryParameters (handleQueryParameters q xs input) ys input"
  by (simp add: handleQueryParameters_def)

lemma handleQueryParameters_Cons:
  "handleQueryParameters q (x # xs) input
   = handleQueryParameters (queryParameter input q x) xs input"
  by (simp add: handleQueryParameters_def)

text \<open>
  Claim C5: for an array value bound to a path parameter of style \<^verbatim>\<open>simple\<close> (or of the
  default style), the substituted path is the same whatever the explode flag is (true,
  false or absent): the first occurrence of the placeholder is replaced by the items,
  joined by commas.
\<close>

theorem simple_array_ignores_explode:
  assumes "gjson_Get input (Name param) = Some (JArray raw items)"
    and "Style param = ''simple'' \<or> Style param = []"
  shows "handlePathParameters path (before @ param\<lparr>Explode := e1\<rparr> # after) input
         = handlePathParameters path (before @ param\<lparr>Explode := e2\<rparr> # after) input
       \<and> handlePathParameters path (before @ param\<lparr>Explode := e1\<rparr> # after) input
         = handlePathParameters
             (strings_Replace1 (handlePathParameters path before input) (placeholder (Name param))
                (strings_Join (map Result_String items) '','')) after input"
proof -
  have "pathParameter input p (param\<lparr>Explode := e\<rparr>)
        = strings_Replace1 p (placeholder (Name param))
            (strings_Join (map Result_String items) '','')" for p e
    using assms by (auto simp: pathParameter_def)
  then show ?thesis
    by (simp add: handlePathParameters_append handlePathParameters_Cons)
qed

theorem simple_array_ignores_explode_witness:
  "handlePathParameters ''/pets/{ids}'' [idsParameter\<lparr>Explode := Some True\<rparr>] idsPayload
   = handlePathParameters ''/pets/{ids}'' [idsParameter\<lparr>Explode := Some False\<rparr>] idsPayload
   \<and> handlePathParameters ''/pets/{ids}'' [idsParameter\<lparr>Explode := Some True\<rparr>] idsPayload
     = ''/pets/1,2''"
  using simple_array_ignores_explode [of idsPayload idsParameter "''[1,2]''"
      "[JNumber ''1'', JNumber ''2'']" "''/pets/{ids}''" "[]" "Some True" "[]" "Some False"]
  by (simp add: idsParameter_def idsPayload_def gjson_Get_def handlePathParameters_def
      pathParameter_def placeholder_def strings_HasPrefix_def)

text \<open>
  Claim C6, as stated, fails for scalar values in the query: \<^verbatim>\<open>handleQueryParameters\<close>
  has no style switch for them, so a scalar bound to a parameter of style \<^verbatim>\<open>deepObject\<close>
  is added to the query as \<^verbatim>\<open>name=value\<close>; the query is not left as it was.
\<close>

theorem deepObject_scalar_counterexample:
  "handleQueryParameters [] [filterParameter] [(''filter'', JString ''x'')] = [(''filter'', [''x''])]
   \<and> handleQueryParameters [] [filterParameter] [(''filter'', JString ''x'')] \<noteq> []"
  by (simp add: handleQueryParameters_def queryParameter_def filterParameter_def gjson_Get_def
      Values_Add_def Values_Get_def)

text \<open>
  Claim C6, amended: a path parameter whose style is none of \<^verbatim>\<open>simple\<close>, \<^verbatim>\<open>label\<close>,
  \<^verbatim>\<open>matrix\<close> or the default leaves the path as it is, whatever the shape of its value; a
  query parameter with an array value whose style is none of \<^verbatim>\<open>form\<close>,
  \<^verbatim>\<open>spaceDelimited\<close>, \<^verbatim>\<open>pipeDelimited\<close> or the default, and a query parameter with an
  object value whose style is none of \<^verbatim>\<open>form\<close>, \<^verbatim>\<open>deepObject\<close> or the default, leave
  the query as it is: the result is the one obtained without the parameter. A scalar
  query value is added as \<^verbatim>\<open>name=value\<close> under every style. The functions return no
  error.
\<close>

theorem unrecognized_style_is_noop:
  "(Style param \<notin> {''simple'', [], ''label'', ''matrix''}
      \<longrightarrow> handlePathParameters path (before @ param # after) input
          = handlePathParameters path (before @ after) input)
   \<and> (gjson_Get input (Name param) = Some (JArray raw items)
        \<and> Style param \<notin> {''form'', [], ''spaceDelimited'', ''pipeDelimited''}
      \<longrightarrow> handleQueryParameters q (before @ param # after) input
          = handleQueryParameters q (before @ after) input)
   \<and> (gjson_Get input (Name param) = Some (JObject raw members)
        \<and> Style param \<notin> {''form'', [], ''deepObject''}
      \<longrightarrow> handleQueryParameters q (before @ param # after) input
          = handleQueryParameters q (before @ after) input)
   \<and> (gjson_Get input (Name param) = Some res \<and> isScalar res
      \<longrightarrow> handleQueryParameters q (before @ param # after) input
          = handleQueryParameters
              (Values_Add (handleQueryParameters q before input) (Name param) (Result_String res))
              after input)"
proof -
  have a: "Style param \<notin> {''simple'', [], ''label'', ''matrix''}
      \<Longrightarrow> pathParameter input p param = p" for p
    by (simp add: pathParameter_def Let_def split: option.splits Result.splits)
  have b: "gjson_Get input (Name param) = Some (JArray raw items)
      \<Longrightarrow> Style param \<notin> {''form'', [], ''spaceDelimited'', ''pipeDelimited''}
      \<Longrightarrow> queryParameter input v param = v" for v
    by (simp add: queryParameter_def)
  have c: "gjson_Get input (Name param) = Some (JObject raw members)
      \<Longrightarrow> Style param \<notin> {''form'', [], ''deepObject''}
      \<Longrightarrow> queryParameter input v param = v" for v
    by (simp add: queryParameter_def)
  have d: "gjson_Get input (Name param) = Some res \<Longrightarrow> isScalar res
      \<Longrightarrow> queryParameter input v param = Values_Add v (Name param) (Result_String res)" for v
    by (cases res) (simp_all add: queryParameter_def isScalar_def)
  show ?thesis
    using a b c d
    by (simp add: handlePathParameters_append handlePathParameters_Cons
        handleQueryParameters_append handleQueryParameters_Cons)
qed

theorem unrecognized_style_is_noop_witness:
  "handlePathParameters ''/pets/{ids}'' [idsParameter\<lparr>Style := ''form''\<rparr>] idsPayload = ''/pets/{ids}''
   \<and> handleQueryParameters [] [idsParameter\<lparr>Style := ''deepObject''\<rparr>] idsPayload = []
   \<and> handleQueryParameters [] [filterParameter\<lparr>Style := ''pipeDelimited''\<rparr>]
        [(''filter'', JObject ''{\"a\":\"1\"}'' [(''a'', JString ''1'')])] = []
   \<and> handleQueryParameters [] [filterParameter] [(''filter'', JString ''x'')]
      = Values_Add [] ''filter'' ''x''"
proof -
  note t = unrecognized_style_is_noop
  have 1: "handlePathParameters ''/pets/{ids}'' [idsParameter\<lparr>Style := ''form''\<rparr>] idsPayload = ''/pets/{ids}''"
    using t [where param = "idsParameter\<lparr>Style := ''form''\<rparr>" and path = "''/pets/{ids}''"
        and before = "[]" and after = "[]" and input = idsPayload]
    by (simp add: idsParameter_def handlePathParameters_def)
  have 2: "handleQueryParameters [] [idsParameter\<lparr>Style := ''deepObject''\<rparr>] idsPayload = []"
    using t [where param = "idsParameter\<lparr>Style := ''deepObject''\<rparr>" and before = "[]"
        and after = "[]" and input = idsPayload and raw = "''[1,2]''"
        and items = "[JNumber ''1'', JNumber ''2'']" and q = "[]"]
    by (simp add: idsParameter_def idsPayload_def gjson_Get_def handleQueryParameters_def)
  have 3: "handleQueryParameters [] [filterParameter\<lparr>Style := ''pipeDelimited''\<rparr>]
        [(''filter'', JObject ''{\"a\":\"1\"}'' [(''a'', JString ''1'')])] = []"
    using t [where param = "filterParameter\<lparr>Style := ''pipeDelimited''\<rparr>" and before = "[]"
        and after = "[]"
        and input = "[(''filter'', JObject ''{\"a\":\"1\"}'' [(''a'', JString ''1'')])]"
        and raw = "''{\"a\":\"1\"}''" and members = "[(''a'', JString ''1'')]" and q = "[]"]
    by (simp add: filterParameter_def gjson_Get_def handleQueryParameters_def)
  have 4: "handleQueryParameters [] [filterParameter] [(''filter'', JString ''x'')]
      = Values_Add [] ''filter'' ''x''"
    using t [where param = filterParameter and before = "[]" and after = "[]"
        and input = "[(''filter'', JString ''x'')]" and res = "JString ''x''" and q = "[]"]
    by (simp add: filterParameter_def gjson_Get_def handleQueryParameters_def isScalar_def)
  from 1 2 3 4 show ?thesis by simp
qed

section \<open>The request\<close>

lemma Run_issued:
  assumes "snd (Run ext env operationID file args0) = [req]"
  shows "\<exists>schema opInfo.
           GetSchema operationID file = Inr (Some (schema, opInfo))
         \<and> Validate ext schema (case args0 of None \<Rightarrow> [] | Some a \<Rightarrow> a) = Inr []
         \<and> buildRequest ext env opInfo (case args0 of None \<Rightarrow> [] | Some a \<Rightarrow> a) = Inr req"
  using assms
  by (auto simp: Run_def Let_def split: sum.splits option.splits if_splits prod.splits)

lemma buildRequest_RawQuery:
  assumes "buildRequest ext env opInfo args = Inr req"
  shows "\<exists>joined u q.
           url_JoinPath ext (Server opInfo)
             (handlePathParameters (Path opInfo) (PathParams opInfo) args) = Inr joined
         \<and> url_Parse ext joined = Inr u
         \<and> http_NewRequest ext (Method opInfo) u = Inr q
         \<and> RawQuery req = compileRawQuery env q (QueryParams opInfo) args"
  using assms
  by (auto simp: buildRequest_def Let_def split: sum.splits if_splits prod.splits)

lemma Values_Encode_Nil: "Values_Encode [] = []"
  by (simp add: Values_Encode_def)

text \<open>
  Claim C10: when the environment gives a non-empty \<^verbatim>\<open>OPENAPI_QUERY_KEY\<close>, the query string
  of the request is the encoded parameter query, followed by \<^verbatim>\<open>&\<close>, \<^verbatim>\<open>key=\<close> and the escaped
  value; this holds for the query string of every request that \<^verbatim>\<open>Run\<close> issues. When the
  parameters give no pair, the query string therefore begins with \<^verbatim>\<open>&\<close>.
\<close>

theorem query_key_appended:
  assumes "OPENAPI_QUERY_KEY env \<noteq> []"
  shows "compileRawQuery env q params input
         = Values_Encode (handleQueryParameters q params input)
           @ ''&'' @ ''key='' @ url_QueryEscape (OPENAPI_QUERY_KEY env)
       \<and> (handleQueryParameters q params input = []
          \<longrightarrow> compileRawQuery env q params input
              = ''&key='' @ url_QueryEscape (OPENAPI_QUERY_KEY env))
       \<and> (snd (Run ext env operationID file args0) = [req]
          \<longrightarrow> (\<exists>schema opInfo u q0.
                 GetSchema operationID file = Inr (Some (schema, opInfo))
               \<and> http_NewRequest ext (Method opInfo) u = Inr q0
               \<and> RawQuery req
                 = Values_Encode (handleQueryParameters q0 (QueryParams opInfo)
                     (case args0 of None \<Rightarrow> [] | Some a \<Rightarrow> a))
                   @ ''&'' @ ''key='' @ url_QueryEscape (OPENAPI_QUERY_KEY env)))"
proof -
  have a: "compileRawQuery env q' ps i
           = Values_Encode (handleQueryParameters q' ps i)
             @ ''&'' @ ''key='' @ url_QueryEscape (OPENAPI_QUERY_KEY env)" for q' ps i
    using assms by (simp add: compileRawQuery_def Let_def)
  have b: "handleQueryParameters q params input = []
          \<longrightarrow> compileRawQuery env q params input
              = ''&key='' @ url_QueryEscape (OPENAPI_QUERY_KEY env)"
    by (simp add: a Values_Encode_Nil)
  have c: "snd (Run ext env operationID file args0) = [req]
          \<longrightarrow> (\<exists>schema opInfo u q0.
                 GetSchema operationID file = Inr (Some (schema, opInfo))
               \<and> http_NewRequest ext (Method opInfo) u = Inr q0
               \<and> RawQuery req
                 = Values_Encode (handleQueryParameters q0 (QueryParams opInfo)
                     (case args0 of None \<Rightarrow> [] | Some a \<Rightarrow> a))
                   @ ''&'' @ ''key='' @ url_QueryEscape (OPENAPI_QUERY_KEY env))"
  proof
    assume "snd (Run ext env operationID file args0) = [req]"
    from Run_issued [OF this] obtain schema opInfo where
      g: "GetSchema operationID file = Inr (Some (schema, opInfo))" and
      r: "buildRequest ext env opInfo (case args0 of None \<Rightarrow> [] | Some a \<Rightarrow> a) = Inr req"
      by blast
    from buildRequest_RawQuery [OF r] obtain u q0 where
      "http_NewRequest ext (Method opInfo) u = Inr q0"
      "RawQuery req = compileRawQuery env q0 (QueryParams opInfo)
         (case args0 of None \<Rightarrow> [] | Some a \<Rightarrow> a)"
      by blast
    with g show "\<exists>schema opInfo u q0.
                 GetSchema operationID file = Inr (Some (schema, opInfo))
               \<and> http_NewRequest ext (Method opInfo) u = Inr q0
               \<and> RawQuery req
                 = Values_Encode (handleQueryParameters q0 (QueryParams opInfo)
                     (case args0 of None \<Rightarrow> [] | Some a \<Rightarrow> a))
                   @ ''&'' @ ''key='' @ url_QueryEscape (OPENAPI_QUERY_KEY env)"
      unfolding a by blast
  qed
  from a b c show ?thesis by blast
qed

lemma petsDocument_GetSchema:
  "GetSchema ''listPets'' (Inr petsDocument)
   = Inr (Some (emptyArguments,
       emptyInfo\<lparr>Server := ''https://api.example.com'', Path := ''/pets'', Method := ''GET''\<rparr>))"
  by (simp add: GetSchema_def petsDocument_def resolveServer_def envServer_def parseServer_def
      substituteVariables_def placeholder_def strings_HasPrefix_def listPets_def
      extractOperation_def)

lemma petsDocument_Run:
  "Run permissive keyEnv ''listPets'' (Inr petsDocument) None
   = (Inr (''ok'', True),
      [\<lparr>req_Method = ''GET'', req_URL = ''https://api.example.com/pets'', RawQuery = ''&key=v'',
        Header = [], Cookies = [], req_Body = None\<rparr>])"
  by (simp add: Run_def petsDocument_GetSchema permissive_def buildRequest_def emptyInfo_def
      keyEnv_def handlePathParameters_def compileRawQuery_def handleQueryParameters_def
      Values_Encode_def url_QueryEscape_def escapeByte_def unreserved_def
      handleHeaderParameters_def handleCookieParameters_def)

theorem query_key_appended_witness:
  "compileRawQuery keyEnv [] [] [] = ''&key=v''
   \<and> RawQuery (hd (snd (Run permissive keyEnv ''listPets'' (Inr petsDocument) None))) = ''&key=v''"
proof -
  have k: "OPENAPI_QUERY_KEY keyEnv = ''v''" by (simp add: keyEnv_def)
  have e: "url_QueryEscape ''v'' = ''v''"
    by (simp add: url_QueryEscape_def escapeByte_def unreserved_def)
  show ?thesis
    using query_key_appended [where env = keyEnv and q = "[]" and params = "[]" and input = "[]"
      and ext = permissive and operationID = "''listPets''" and ?file = "Inr petsDocument"
      and ?args0.0 = None
      and req = "hd (snd (Run permissive keyEnv ''listPets'' (Inr petsDocument) None))"]
    by (simp add: k e petsDocument_Run handleQueryParameters_def Values_Encode_Nil)
qed

section \<open>The request body\<close>

lemma envServer_parse: "parseServer envServer = Inr ''https://api.example.com''"
  by (simp add: parseServer_def envServer_def substituteVariables_def placeholder_def
      strings_HasPrefix_def)

lemma formDocument_GetSchema:
  "GetSchema ''submitForm'' (Inr formDocument)
   = Inr (Some (SchemaRef [] ''object'' [] False None [] [] [] None None
                  [(''requestBodyContent'', objectSchema)] [''requestBodyContent''],
                \<lparr>Server = ''https://api.example.com'', Path = ''/forms'', Method = ''POST'',
                 BodyContentMIME = ''application/x-www-form-urlencoded'',
                 QueryParams = [], PathParams = [], HeaderParams = [], CookieParams = []\<rparr>))"
  by (simp add: GetSchema_def formDocument_def resolveServer_def envServer_parse
      extractOperation_def processRequestBody_def supportedMIMETypes_def objectSchema_def
      emptyArguments_def emptyInfo_def storeProperty_def withProperties_def withRequired_def
      withRef_def withDescription_def)

text \<open>
  Claim C1 fails on the code: \<^verbatim>\<open>application/x-www-form-urlencoded\<close> is in
  \<^verbatim>\<open>supportedMIMETypes\<close>, so extraction selects it, but the \<^verbatim>\<open>switch\<close> of \<^verbatim>\<open>Run\<close> has no
  case for it. For an operation whose body is declared with that content type only,
  extraction succeeds and \<^verbatim>\<open>Run\<close>, with arguments that pass validation, ends in the
  \<^verbatim>\<open>unsupported MIME type\<close> error; no request is issued.
\<close>

theorem form_urlencoded_reaches_UnsupportedMIME:
  "GetSchema ''submitForm'' (Inr formDocument)
   = Inr (Some (SchemaRef [] ''object'' [] False None [] [] [] None None
                  [(''requestBodyContent'', objectSchema)] [''requestBodyContent''],
                \<lparr>Server = ''https://api.example.com'', Path = ''/forms'', Method = ''POST'',
                 BodyContentMIME = ''application/x-www-form-urlencoded'',
                 QueryParams = [], PathParams = [], HeaderParams = [], CookieParams = []\<rparr>))
   \<and> ''application/x-www-form-urlencoded'' \<in> set supportedMIMETypes
   \<and> Run (permissive\<lparr>Validate := validateRequired\<rparr>) keyEnv ''submitForm'' (Inr formDocument)
       (Some [(''requestBodyContent'', JObject ''{}'' [])])
     = (Inl (UnsupportedMIME ''application/x-www-form-urlencoded''), [])"
  by (simp add: formDocument_GetSchema supportedMIMETypes_def Run_def permissive_def
      validateRequired_def gjson_Get_def buildRequest_def compileBody_def)

lemma compileBody_multipart:
  "\<nexists>raw members. gjson_Get args ''requestBodyContent'' = Some (JObject raw members)
   \<Longrightarrow> compileBody boundary ''multipart/form-data'' args = Inl InvalidBodyShape"
  by (auto simp: compileBody_def Let_def split: option.splits Result.splits)

lemma buildRequest_multipart:
  assumes "BodyContentMIME opInfo = ''multipart/form-data''"
    and "\<nexists>raw members. gjson_Get args ''requestBodyContent'' = Some (JObject raw members)"
  shows "\<exists>e. buildRequest ext env opInfo args = Inl e"
    and "url_JoinPath ext (Server opInfo)
           (handlePathParameters (Path opInfo) (PathParams opInfo) args) = Inr joined
         \<Longrightarrow> url_Parse ext joined = Inr u
         \<Longrightarrow> http_NewRequest ext (Method opInfo) u = Inr q
         \<Longrightarrow> buildRequest ext env opInfo args = Inl InvalidBodyShape"
  using assms compileBody_multipart [OF assms(2)]
  by (auto simp: buildRequest_def Let_def split: sum.splits)

text \<open>
  Claim C8, as stated, fails when the value is absent: \<^verbatim>\<open>requestBodyContent\<close> is a required
  property of the argument schema, and \<^verbatim>\<open>Run\<close> validates the arguments before it builds
  the request. With a validator that reports missing required properties, \<^verbatim>\<open>Run\<close> on
  an operation with a \<^verbatim>\<open>multipart/form-data\<close> body and no arguments fails with the
  validation error, not with \<^verbatim>\<open>InvalidBodyShape\<close>.
\<close>

theorem multipart_absent_body_counterexample:
  "Run (permissive\<lparr>Validate := validateRequired\<rparr>) keyEnv ''upload'' (Inr multipartDocument) None
   = (Inl (ValidationError ''upload'' [''requestBodyContent is required'']), [])"
  by (simp add: Run_def GetSchema_def multipartDocument_def resolveServer_def envServer_parse
      extractOperation_def processRequestBody_def supportedMIMETypes_def objectSchema_def
      emptyArguments_def emptyInfo_def storeProperty_def withProperties_def withRequired_def
      withRef_def withDescription_def permissive_def validateRequired_def gjson_Get_def)

text \<open>
  Claim C8, amended: for every \<^verbatim>\<open>Run\<close> invocation whose operation has the body content type
  \<^verbatim>\<open>multipart/form-data\<close>, if the \<^verbatim>\<open>requestBodyContent\<close> value of the payload is not a JSON
  object (or is absent), \<^verbatim>\<open>Run\<close> fails and no HTTP request is issued; the failure is
  \<^verbatim>\<open>InvalidBodyShape\<close> whenever the validation of the arguments and the construction of the
  URL and of the request succeeded (otherwise it is the error of the step that failed).
\<close>

theorem multipart_requires_object:
  assumes "GetSchema operationID file = Inr (Some (schema, opInfo))"
    and "BodyContentMIME opInfo = ''multipart/form-data''"
    and "args = (case args0 of None \<Rightarrow> [] | Some a \<Rightarrow> a)"
    and "\<nexists>raw members. gjson_Get args ''requestBodyContent'' = Some (JObject raw members)"
  shows "snd (Run ext env operationID file args0) = []
       \<and> (\<exists>e. fst (Run ext env operationID file args0) = Inl e)
       \<and> (Validate ext schema args = Inr []
          \<and> url_JoinPath ext (Server opInfo)
              (handlePathParameters (Path opInfo) (PathParams opInfo) args) = Inr joined
          \<and> url_Parse ext joined = Inr u
          \<and> http_NewRequest ext (Method opInfo) u = Inr q
          \<longrightarrow> fst (Run ext env operationID file args0) = Inl InvalidBodyShape)"
proof -
  from buildRequest_multipart(1) [OF assms(2,4)] obtain e
    where e: "buildRequest ext env opInfo args = Inl e" by blast
  have a: "snd (Run ext env operationID file args0) = []"
    using assms(1,3) e by (simp add: Run_def Let_def split: sum.splits)
  have b: "\<exists>e. fst (Run ext env operationID file args0) = Inl e"
    using assms(1,3) e by (simp add: Run_def Let_def split: sum.splits)
  have c: "Validate ext schema args = Inr []
          \<and> url_JoinPath ext (Server opInfo)
              (handlePathParameters (Path opInfo) (PathParams opInfo) args) = Inr joined
          \<and> url_Parse ext joined = Inr u
          \<and> http_NewRequest ext (Method opInfo) u = Inr q
          \<longrightarrow> fst (Run ext env operationID file args0) = Inl InvalidBodyShape"
    using assms(1,3) buildRequest_multipart(2) [OF assms(2,4), of ext joined u q env]
    by (auto simp: Run_def Let_def)
  from a b c show ?thesis by blast
qed

lemma multipartDocument_GetSchema:
  "GetSchema ''upload'' (Inr multipartDocument)
   = Inr (Some (SchemaRef [] ''object'' [] False None [] [] [] None None
                  [(''requestBodyContent'', objectSchema)] [''requestBodyContent''],
                \<lparr>Server = ''https://api.example.com'', Path = ''/files'', Method = ''POST'',
                 BodyContentMIME = ''multipart/form-data'',
                 QueryParams = [], PathParams = [], HeaderParams = [], CookieParams = []\<rparr>))"
  by (simp add: GetSchema_def multipartDocument_def resolveServer_def envServer_parse
      extractOperation_def processRequestBody_def supportedMIMETypes_def objectSchema_def
      emptyArguments_def emptyInfo_def storeProperty_def withProperties_def withRequired_def
      withRef_def withDescription_def)

theorem multipart_requires_object_witness:
  "Run permissive keyEnv ''upload'' (Inr multipartDocument)
     (Some [(''requestBodyContent'', JString ''text'')])
   = (Inl InvalidBodyShape, [])"
proof -
  let ?r = "Run permissive keyEnv ''upload'' (Inr multipartDocument)
     (Some [(''requestBodyContent'', JString ''text'')])"
  have "snd ?r = [] \<and> fst ?r = Inl InvalidBodyShape"
    using multipart_requires_object [OF multipartDocument_GetSchema, where ext = permissive
      and ?args0.0 = "Some [(''requestBodyContent'', JString ''text'')]"
      and args = "[(''requestBodyContent'', JString ''text'')]"
      and joined = "''https://api.example.com/files''" and u = "''https://api.example.com/files''"
      and q = "[]" and env = keyEnv]
    by (simp add: gjson_Get_def permissive_def handlePathParameters_def)
  then show ?thesis by (simp add: prod_eq_iff)
qed

section \<open>The query string\<close>

lemma Values_Get_Add:
  "Values_Get (Values_Add q k v) k' = (if k' = k then Values_Get q k @ [v] else Values_Get q k')"
  by (simp add: Values_Get_def Values_Add_def update_conv')

lemma Values_Get_fold_Add:
  "Values_Get (foldl (\<lambda>q x. Values_Add q (f x) (g x)) q xs) k
   = Values_Get q k @ map g (filter (\<lambda>x. f x = k) xs)"
  by (induction xs arbitrary: q) (auto simp: Values_Get_Add)

lemma Values_Get_addItems:
  "Values_Get (addItems q name items) k
   = Values_Get q k @ (if k = name then map Result_String items else [])"
proof -
  have "Values_Get (foldl (\<lambda>q x. Values_Add q name (Result_String x)) q items) k
        = Values_Get q k @ map Result_String (filter (\<lambda>x. name = k) items)"
    by (rule Values_Get_fold_Add)
  then show ?thesis by (auto simp: addItems_def)
qed

lemma Values_Get_fold_members:
  "Values_Get (foldl (\<lambda>q (k, v). Values_Add q (f k) (Result_String v)) q xs) k'
   = Values_Get q k' @ map (\<lambda>x. Result_String (snd x)) (filter (\<lambda>x. f (fst x) = k') xs)"
proof -
  have "(\<lambda>q (k, v). Values_Add q (f k) (Result_String v))
        = (\<lambda>q x. Values_Add q (f (fst x)) (Result_String (snd x)))"
    by (simp add: fun_eq_iff split_beta)
  then show ?thesis by (simp add: Values_Get_fold_Add)
qed

text \<open>A parameter only appends to the values of a key.\<close>

lemma queryParameter_extends:
  "\<exists>ys. Values_Get (queryParameter input q p) k = Values_Get q k @ ys"
proof (cases "gjson_Get input (Name p)")
  case None
  then show ?thesis by (simp add: queryParameter_def)
next
  case (Some res)
  have m: "\<exists>ys. Values_Get (foldl (\<lambda>q (k, v). Values_Add q (f k) (Result_String v)) q xs) k
             = Values_Get q k @ ys" for f xs
    by (simp add: Values_Get_fold_members)
  show ?thesis
  proof (cases res)
    case (JArray raw items)
    with Some show ?thesis
      by (simp add: queryParameter_def Let_def Values_Get_addItems Values_Get_Add)
  next
    case (JObject raw members)
    with Some m [of "\<lambda>k. k"] m [of "\<lambda>k. Name p @ ''['' @ k @ '']''"] show ?thesis
      by (simp add: queryParameter_def Let_def Values_Get_Add)
  qed (use Some in \<open>simp_all add: queryParameter_def Values_Get_Add\<close>)
qed

lemma handleQueryParameters_extends:
  "\<exists>ys. Values_Get (handleQueryParameters q ps input) k = Values_Get q k @ ys"
proof (induction ps arbitrary: q)
  case Nil
  then show ?case by (simp add: handleQueryParameters_def)
next
  case (Cons p ps)
  from queryParameter_extends obtain ys
    where 1: "Values_Get (queryParameter input q p) k = Values_Get q k @ ys" by blast
  from Cons.IH obtain zs
    where 2: "Values_Get (handleQueryParameters (queryParameter input q p) ps input) k
              = Values_Get (queryParameter input q p) k @ zs" by blast
  show ?case by (simp add: handleQueryParameters_Cons 1 2)
qed

lemma strings_Join_Cons: "strings_Join (x # xs) sep = x @ concat (map (\<lambda>y. sep @ y) xs)"
  by (induction xs arbitrary: x) simp_all

lemma sublist_Join_pair: "sublist (x @ sep @ y) (strings_Join (A @ x # y # B) sep)"
proof (cases A)
  case Nil
  then show ?thesis by (simp add: strings_Join_Cons)
next
  case (Cons a A')
  have "strings_Join (A @ x # y # B) sep
        = (a @ concat (map (\<lambda>y. sep @ y) A') @ sep) @ (x @ sep @ y)
          @ concat (map (\<lambda>y. sep @ y) B)"
    by (simp add: Cons strings_Join_Cons)
  then show ?thesis by (metis sublist_appendI)
qed

lemma sublist_Join_single: "sublist x (strings_Join (A @ x # B) sep)"
proof (cases A)
  case Nil
  then show ?thesis by (simp add: strings_Join_Cons)
next
  case (Cons a A')
  have "strings_Join (A @ x # B) sep
        = (a @ concat (map (\<lambda>y. sep @ y) A') @ sep) @ x @ concat (map (\<lambda>y. sep @ y) B)"
    by (simp add: Cons strings_Join_Cons)
  then show ?thesis by (metis sublist_appendI)
qed

lemma Values_Get_key: "Values_Get q k \<noteq> [] \<Longrightarrow> k \<in> set (sort (remdups (map fst q)))"
  by (auto simp: Values_Get_def split: option.splits dest: map_of_SomeD intro: rev_image_eqI)

lemma encoded_pairs_split:
  assumes "Values_Get q k = xs @ vs @ zs" and "vs \<noteq> []"
  shows "\<exists>A B. concat (map (encodePairs q) (sort (remdups (map fst q))))
               = A @ map (\<lambda>v. url_QueryEscape k @ ''='' @ url_QueryEscape v) vs @ B"
proof -
  from assms have "k \<in> set (sort (remdups (map fst q)))" by (intro Values_Get_key) simp
  then obtain ks1 ks2 where ks: "sort (remdups (map fst q)) = ks1 @ k # ks2"
    by (meson split_list)
  let ?g = "\<lambda>v. url_QueryEscape k @ ''='' @ url_QueryEscape v"
  have "concat (map (encodePairs q) (sort (remdups (map fst q))))
        = (concat (map (encodePairs q) ks1) @ map ?g xs) @ map ?g vs
          @ (map ?g zs @ concat (map (encodePairs q) ks2))"
    by (simp add: ks encodePairs_def assms(1))
  then show ?thesis by blast
qed

lemma Values_Encode_two:
  assumes "Values_Get q k = xs @ v1 # v2 # zs"
  shows "sublist (url_QueryEscape k @ ''='' @ url_QueryEscape v1 @ ''&''
                  @ url_QueryEscape k @ ''='' @ url_QueryEscape v2) (Values_Encode q)"
proof -
  from encoded_pairs_split [of q k xs "[v1, v2]" zs] assms obtain A B where
    "concat (map (encodePairs q) (sort (remdups (map fst q))))
     = A @ (url_QueryEscape k @ ''='' @ url_QueryEscape v1)
         # (url_QueryEscape k @ ''='' @ url_QueryEscape v2) # B"
    by auto
  then show ?thesis
    using sublist_Join_pair [of "url_QueryEscape k @ ''='' @ url_QueryEscape v1" "''&''"
        "url_QueryEscape k @ ''='' @ url_QueryEscape v2" A B]
    by (simp add: Values_Encode_def)
qed

lemma Values_Encode_one:
  assumes "Values_Get q k = xs @ v # zs"
  shows "sublist (url_QueryEscape k @ ''='' @ url_QueryEscape v) (Values_Encode q)"
proof -
  from encoded_pairs_split [of q k xs "[v]" zs] assms obtain A B where
    "concat (map (encodePairs q) (sort (remdups (map fst q))))
     = A @ (url_QueryEscape k @ ''='' @ url_QueryEscape v) # B"
    by auto
  then show ?thesis
    using sublist_Join_single [of "url_QueryEscape k @ ''='' @ url_QueryEscape v" A B "''&''"]
    by (simp add: Values_Encode_def)
qed

lemma sublist_compileRawQuery:
  "sublist x (Values_Encode (handleQueryParameters q params input))
   \<Longrightarrow> sublist x (compileRawQuery env q params input)"
  by (auto simp: compileRawQuery_def Let_def sublist_append)

text \<open>
  Claim C4: for a query parameter named \<^verbatim>\<open>tags\<close> of style \<^verbatim>\<open>form\<close>, among the query parameters
  of the operation, and the array value \<^verbatim>\<open>["a","b"]\<close>: when explode is true or absent, the
  query string contains \<^verbatim>\<open>tags=a&tags=b\<close>; when explode is false, it contains \<^verbatim>\<open>tags=a%2Cb\<close>.
  This holds whatever the other parameters, the query that the URL already carries and the
  environment are.
\<close>

theorem form_array_query_string:
  assumes "param \<in> set params" and "Name param = ''tags''" and "Style param = ''form''"
    and "gjson_Get input ''tags'' = Some (JArray raw [JString ''a'', JString ''b''])"
  shows "(Explode param = Some True \<or> Explode param = None
            \<longrightarrow> sublist ''tags=a&tags=b'' (compileRawQuery env q params input))
       \<and> (Explode param = Some False
            \<longrightarrow> sublist ''tags=a%2Cb'' (compileRawQuery env q params input))"
proof -
  from assms(1) obtain before after where ps: "params = before @ param # after"
    by (meson split_list)
  let ?q1 = "handleQueryParameters q before input"
  let ?q2 = "queryParameter input ?q1 param"
  let ?q3 = "handleQueryParameters q params input"
  from handleQueryParameters_extends [of ?q2 after input "''tags''"] obtain ys
    where ys: "Values_Get ?q3 ''tags'' = Values_Get ?q2 ''tags'' @ ys"
    by (auto simp: ps handleQueryParameters_append handleQueryParameters_Cons)
  have esc: "url_QueryEscape ''tags'' = ''tags''" "url_QueryEscape ''a'' = ''a''"
    "url_QueryEscape ''b'' = ''b''" "url_QueryEscape ''a,b'' = ''a%2Cb''"
    by (simp_all add: url_QueryEscape_def escapeByte_def unreserved_def upperhex_def)
  have a: "sublist ''tags=a&tags=b'' (compileRawQuery env q params input)"
    if "Explode param = Some True \<or> Explode param = None"
  proof -
    from that assms(2-4) have "Values_Get ?q2 ''tags'' = Values_Get ?q1 ''tags'' @ [''a'', ''b'']"
      by (auto simp: queryParameter_def Values_Get_addItems)
    with ys have "Values_Get ?q3 ''tags'' = Values_Get ?q1 ''tags'' @ ''a'' # ''b'' # ys"
      by simp
    from Values_Encode_two [OF this] show ?thesis
      by (intro sublist_compileRawQuery) (simp add: esc)
  qed
  have b: "sublist ''tags=a%2Cb'' (compileRawQuery env q params input)"
    if "Explode param = Some False"
  proof -
    from that assms(2-4) have "Values_Get ?q2 ''tags'' = Values_Get ?q1 ''tags'' @ [''a,b'']"
      by (auto simp: queryParameter_def Values_Get_Add)
    with ys have "Values_Get ?q3 ''tags'' = Values_Get ?q1 ''tags'' @ ''a,b'' # ys"
      by simp
    from Values_Encode_one [OF this] show ?thesis
      by (intro sublist_compileRawQuery) (simp add: esc)
  qed
  from a b show ?thesis by blast
qed

theorem form_array_query_string_witness:
  "sublist ''tags=a&tags=b'' (compileRawQuery keyEnv [] [tagsParameter] tagsPayload)
   \<and> sublist ''tags=a&tags=b''
       (compileRawQuery keyEnv [] [tagsParameter\<lparr>Explode := Some True\<rparr>] tagsPayload)
   \<and> sublist ''tags=a%2Cb''
       (compileRawQuery keyEnv [] [tagsParameter\<lparr>Explode := Some False\<rparr>] tagsPayload)"
proof -
  have g: "gjson_Get tagsPayload ''tags''
           = Some (JArray ''[\"a\",\"b\"]'' [JString ''a'', JString ''b''])"
    by (simp add: tagsPayload_def gjson_Get_def)
  show ?thesis
    using form_array_query_string [where param = tagsParameter and params = "[tagsParameter]",
        OF _ _ _ g, of keyEnv "[]"]
      form_array_query_string [where param = "tagsParameter\<lparr>Explode := Some True\<rparr>"
        and params = "[tagsParameter\<lparr>Explode := Some True\<rparr>]", OF _ _ _ g, of keyEnv "[]"]
      form_array_query_string [where param = "tagsParameter\<lparr>Explode := Some False\<rparr>"
        and params = "[tagsParameter\<lparr>Explode := Some False\<rparr>]", OF _ _ _ g, of keyEnv "[]"]
    by (simp add: tagsParameter_def)
qed

section \<open>Schema extraction\<close>

lemma withProperties_sel [simp]:
  "Properties (withProperties ps s) = ps" "Required (withProperties ps s) = Required s"
  by (cases s; simp add: withProperties_def)+

lemma withRequired_sel [simp]:
  "Properties (withRequired rq s) = Properties s" "Required (withRequired rq s) = rq"
  by (cases s; simp add: withRequired_def)+

lemma storeProperty_sel [simp]:
  "Properties (storeProperty name arg s) = AList.update name (withRef [] arg) (Properties s)"
  "Required (storeProperty name arg s) = Required s"
  by (simp_all add: storeProperty_def)












section \<open>Parameters declared at both levels\<close>














lemma searchOperation_extract:
  "extractOperation ''search'' ''/search'' searchPathItem ''https://api.example.com'' ''GET''
     searchOperation
   = Inr (SchemaRef [] ''object'' [] False None [] [] [] None None
            [(''limit'', SchemaRef [] ''string'' ''limit of the path item'' False None [] [] []
                          None None [] [])] [],
          \<lparr>Server = ''https://api.example.com'', Path = ''/search'', Method = ''GET'',
           BodyContentMIME = [],
           QueryParams = [\<lparr>Name = ''limit'', Style = [], Explode = None\<rparr>,
                          \<lparr>Name = ''limit'', Style = ''form'', Explode = None\<rparr>],
           PathParams = [], HeaderParams = [], CookieParams = []\<rparr>)"
  by (simp add: extractOperation_def searchOperation_def searchPathItem_def resolveServer_def
      limitOfOperation_def limitOfPathItem_def processParameter_def integerSchema_def
      stringSchema_def emptyArguments_def emptyInfo_def storeProperty_def withProperties_def
      withRequired_def withRef_def withDescription_def saveParameter_def toParameter_def)

lemma searchDocument_GetSchema:
  "GetSchema ''search'' (Inr searchDocument)
   = Inr (Some (SchemaRef [] ''object'' [] False None [] [] [] None None
            [(''limit'', SchemaRef [] ''string'' ''limit of the path item'' False None [] [] []
                          None None [] [])] [],
          \<lparr>Server = ''https://api.example.com'', Path = ''/search'', Method = ''GET'',
           BodyContentMIME = [],
           QueryParams = [\<lparr>Name = ''limit'', Style = [], Explode = None\<rparr>,
                          \<lparr>Name = ''limit'', Style = ''form'', Explode = None\<rparr>],
           PathParams = [], HeaderParams = [], CookieParams = []\<rparr>))"
proof -
  have "OperationID searchOperation = ''search''" by (simp add: searchOperation_def)
  moreover have "Operations searchPathItem = [(''GET'', searchOperation)]"
    "item_Servers searchPathItem = []"
    by (simp_all add: searchPathItem_def)
  ultimately show ?thesis
    by (simp add: GetSchema_def searchDocument_def resolveServer_def envServer_parse
        searchOperation_extract)
qed


end
